theory Spec2Isabelle
  imports Complex_Main
begin

section \<open>Python values\<close>

text \<open>
  A Python \<open>str\<close> is a sequence of Unicode code points. Most literals of
  \<open>sales_bot.py\<close> are Cyrillic, so a string is modelled as the list of its code points;
  a literal that is pure ASCII is written through \<open>ascii\<close>.
\<close>

type_synonym py_str = "nat list"

definition ascii :: "string \<Rightarrow> py_str" where
  "ascii s = map of_char s"

text \<open>Truthiness of an optional string: \<open>None\<close> and \<open>''\<close> are falsy.\<close>

fun truthy :: "py_str option \<Rightarrow> bool" where
  "truthy None = False"
| "truthy (Some s) = (s \<noteq> [])"

text \<open>The exceptions that the modelled code can meet.\<close>

datatype py_exception = OperationalError | AttributeError | ProviderError

text \<open>How a call ends: with a value, or with an exception that leaves the function.\<close>

datatype 'a outcome = Returned 'a | Raised py_exception

section \<open>The product store (SQLite file \<open>bot_database.db\<close>)\<close>

text \<open>
  One row of table \<open>products\<close>: \<open>id INTEGER PRIMARY KEY AUTOINCREMENT\<close>,
  \<open>name TEXT NOT NULL\<close>, \<open>description TEXT\<close>, \<open>price REAL NOT NULL\<close>,
  \<open>image_url TEXT\<close>. A finite \<open>REAL\<close> is a dyadic rational, so the price is a
  \<open>rat\<close>; the two nullable columns are options.
\<close>

record product_row =
  row_id :: nat
  name :: py_str
  description :: "py_str option"
  price :: rat
  image_url :: "py_str option"

text \<open>
  The database file as the two functions see it. \<open>available\<close> says whether
  \<open>sqlite3.connect\<close> and the statements on the connection succeed (when it is
  \<open>False\<close> they raise). \<open>products\<close> is \<open>None\<close> while the table does not exist,
  otherwise its rows in rowid order, which is the order of a full scan and, with
  \<open>AUTOINCREMENT\<close>, the order of insertion. \<open>sqlite_sequence\<close> is the largest rowid
  handed out so far. The record is the committed content of the file: what another
  connection sees.
\<close>

record database =
  available :: bool
  products :: "product_row list option"
  sqlite_sequence :: nat

text \<open>What \<open>SELECT name, description, price, image_url\<close> yields for a row.\<close>

type_synonym product = "py_str \<times> py_str option \<times> rat \<times> py_str option"

definition select_columns :: "product_row \<Rightarrow> product" where
  "select_columns r = (name r, description r, price r, image_url r)"

text \<open>\<open>CREATE TABLE IF NOT EXISTS products (...)\<close>\<close>

definition create_table_if_not_exists :: "database \<Rightarrow> database" where
  "create_table_if_not_exists db =
     (case products db of
        None \<Rightarrow> db\<lparr>products := Some []\<rparr>
      | Some rs \<Rightarrow> db)"

text \<open>\<open>SELECT COUNT(*) FROM products\<close>, on a database whose table exists.\<close>

definition count_products :: "database \<Rightarrow> nat" where
  "count_products db = (case products db of None \<Rightarrow> 0 | Some rs \<Rightarrow> length rs)"

text \<open>
  The largest rowid of SQLite, \<open>2^63 - 1\<close>. Once \<open>AUTOINCREMENT\<close> has handed it out,
  an insert raises (the database is reported full).
\<close>

definition max_rowid :: nat where
  "max_rowid = 9223372036854775807"

text \<open>
  \<open>INSERT INTO products (name, description, price, image_url) VALUES (?, ?, ?, ?)\<close>:
  the new row gets the rowid after the largest one handed out so far. The insert raises
  when the table is missing or the rowids are used up.
\<close>

definition insert_product :: "product \<Rightarrow> database \<Rightarrow> py_exception + database" where
  "insert_product p db =
     (case p of (n, d, pr, i) \<Rightarrow>
        (case products db of
           None \<Rightarrow> Inl OperationalError
         | Some rs \<Rightarrow>
             if max_rowid \<le> sqlite_sequence db then Inl OperationalError
             else Inr (db\<lparr>products :=
                            Some (rs @ [\<lparr>row_id = Suc (sqlite_sequence db), name = n,
                                          description = d, price = pr, image_url = i\<rparr>]),
                          sqlite_sequence := Suc (sqlite_sequence db)\<rparr>)))"

text \<open>The two sample products of \<open>init_db\<close> (source lines 69 to 72).\<close>

definition sample_laptop :: product where
  "sample_laptop =
     ([1053, 1086, 1091, 1090, 1073, 1091, 1082, 32, 80, 114, 111, 88],
      Some [1052, 1086, 1097, 1085, 1099, 1081, 32, 1085, 1086, 1091, 1090, 1073, 1091, 1082,
            32, 1076, 1083, 1103, 32, 1088, 1072, 1073, 1086, 1090, 1099, 32, 1080, 32, 1080,
            1075, 1088, 46],
      1200,
      Some (ascii ''https://upload.wikimedia.org/wikipedia/commons/thumb/b/b3/Laptop_computer_on_table.jpg/640px-Laptop_computer_on_table.jpg''))"

definition sample_phone :: product where
  "sample_phone =
     ([1057, 1084, 1072, 1088, 1090, 1092, 1086, 1085, 32, 85, 108, 116, 114, 97],
      Some [1060, 1083, 1072, 1075, 1084, 1072, 1085, 1089, 1082, 1080, 1081, 32, 1089, 1084,
            1072, 1088, 1090, 1092, 1086, 1085, 32, 1089, 32, 1083, 1091, 1095, 1096, 1077,
            1081, 32, 1082, 1072, 1084, 1077, 1088, 1086, 1081, 46],
      800,
      Some (ascii ''https://upload.wikimedia.org/wikipedia/commons/thumb/c/c2/IPhone_14_Pro_Max_mockup.png/640px-IPhone_14_Pro_Max_mockup.png''))"

text \<open>
  The body of \<open>init_db\<close> inside its \<open>try\<close>: connect, create the table if it is
  missing, count the rows and, when there are none, insert the two samples and commit.
  The result is the store as the body leaves it and how the body ended. Creating the
  table takes effect at once; the inserts take effect only with \<open>conn.commit()\<close>, so
  an insert that raises leaves the table without the samples.
\<close>

definition init_db_body :: "database \<Rightarrow> database \<times> unit outcome" where
  "init_db_body db =
     (if \<not> available db then (db, Raised OperationalError)
      else
        let db1 = create_table_if_not_exists db in
        if count_products db1 = 0
        then (case insert_product sample_laptop db1 of
                Inl e \<Rightarrow> (db1, Raised e)
              | Inr db2 \<Rightarrow>
                  (case insert_product sample_phone db2 of
                     Inl e \<Rightarrow> (db1, Raised e)
                   | Inr db3 \<Rightarrow> (db3, Returned ())))
        else (db1, Returned ()))"

text \<open>
  \<open>init_db\<close>: the \<open>except Exception\<close> logs and the function returns normally, so
  only the store remains.
\<close>

definition init_db :: "database \<Rightarrow> database" where
  "init_db db = fst (init_db_body db)"

text \<open>The body of \<open>get_products\<close> inside its \<open>try\<close>; a missing table raises too.\<close>

definition get_products_body :: "database \<Rightarrow> py_exception + product list" where
  "get_products_body db =
     (if \<not> available db then Inl OperationalError
      else case products db of
             None \<Rightarrow> Inl OperationalError
           | Some rs \<Rightarrow> Inr (map select_columns rs))"

text \<open>\<open>get_products\<close>: the \<open>except Exception\<close> logs and returns \<open>[]\<close>.\<close>

definition get_products :: "database \<Rightarrow> product list" where
  "get_products db = (case get_products_body db of Inl e \<Rightarrow> [] | Inr ps \<Rightarrow> ps)"

section \<open>The texts the bot sends\<close>

text \<open>
  The string literals of the handlers, as code points. Where the source repeats a literal,
  it is one constant here.
\<close>

text \<open>Label of the first menu button (line 100).\<close>

definition label_show_products :: py_str where
  "label_show_products =
     [1055, 1086, 1089, 1084, 1086, 1090, 1088, 1077, 1090, 1100, 32, 1090, 1086, 1074,
      1072, 1088, 1099]"

text \<open>Label of the second menu button (line 101).\<close>

definition label_ask_ai :: py_str where
  "label_ask_ai =
     [1047, 1072, 1076, 1072, 1090, 1100, 32, 1074, 1086, 1087, 1088, 1086, 1089, 32, 1048,
      1048]"

text \<open>The greeting of \<open>start_command\<close> before the user's mention (line 106).\<close>

definition text_greeting_head :: py_str where
  "text_greeting_head =
     [1055, 1088, 1080, 1074, 1077, 1090, 44, 32]"

text \<open>The greeting after the mention: what the bot is, and a request to choose (line 106).\<close>

definition text_greeting_tail :: py_str where
  "text_greeting_tail =
     [33, 32, 1071, 32, 1073, 1086, 1090, 45, 1084, 1072, 1075, 1072, 1079, 1080, 1085, 46,
      32, 1042, 1099, 1073, 1077, 1088, 1080, 1090, 1077, 32, 1076, 1077, 1081, 1089, 1090,
      1074, 1080, 1077, 58]"

text \<open>The help text: the commands /start and /help, or the buttons (lines 111 to 112).\<close>

definition text_help :: py_str where
  "text_help =
     [1048, 1089, 1087, 1086, 1083, 1100, 1079, 1091, 1081, 1090, 1077, 32, 1082, 1086,
      1084, 1072, 1085, 1076, 1099, 58, 32, 47, 115, 116, 97, 114, 116, 44, 32, 47, 104,
      101, 108, 112, 46, 10, 1048, 1083, 1080, 32, 1082, 1085, 1086, 1087, 1082, 1080, 32,
      1076, 1083, 1103, 32, 1074, 1079, 1072, 1080, 1084, 1086, 1076, 1077, 1081, 1089,
      1090, 1074, 1080, 1103, 46]"

text \<open>Heading of the product listing, ending in two newlines (line 120).\<close>

definition text_listing_head :: py_str where
  "text_listing_head =
     [1042, 1086, 1090, 32, 1095, 1090, 1086, 32, 1077, 1089, 1090, 1100, 32, 1074, 32,
      1085, 1072, 1096, 1077, 1084, 32, 1084, 1072, 1075, 1072, 1079, 1080, 1085, 1077, 58,
      10, 10]"

text \<open>Closes the bold name, newline, then the description label (lines 123 to 124).\<close>

definition text_after_name :: py_str where
  "text_after_name =
     [60, 47, 98, 62, 10, 1054, 1087, 1080, 1089, 1072, 1085, 1080, 1077, 58, 32]"

text \<open>Newline, then the price label with the dollar sign (lines 124 to 125).\<close>

definition text_before_price :: py_str where
  "text_before_price =
     [10, 1062, 1077, 1085, 1072, 58, 32, 36]"

text \<open>The image label (line 128).\<close>

definition text_image_label :: py_str where
  "text_image_label =
     [1048, 1079, 1086, 1073, 1088, 1072, 1078, 1077, 1085, 1080, 1077, 58, 32]"

text \<open>The request to choose the next action (lines 139, 150 and 185).\<close>

definition text_choose_next :: py_str where
  "text_choose_next =
     [1042, 1099, 1073, 1077, 1088, 1080, 1090, 1077, 32, 1089, 1083, 1077, 1076, 1091,
      1102, 1097, 1077, 1077, 32, 1076, 1077, 1081, 1089, 1090, 1074, 1080, 1077, 58]"

text \<open>The message that the shop has no products yet (line 141).\<close>

definition text_no_products :: py_str where
  "text_no_products =
     [1042, 32, 1084, 1072, 1075, 1072, 1079, 1080, 1085, 1077, 32, 1087, 1086, 1082, 1072,
      32, 1085, 1077, 1090, 32, 1090, 1086, 1074, 1072, 1088, 1086, 1074, 46]"

text \<open>The message that the AI function is unavailable (lines 168 and 200).\<close>

definition text_ai_unavailable :: py_str where
  "text_ai_unavailable =
     [1048, 1079, 1074, 1080, 1085, 1080, 1090, 1077, 44, 32, 1092, 1091, 1085, 1082, 1094,
      1080, 1103, 32, 1048, 1048, 32, 1089, 1077, 1081, 1095, 1072, 1089, 32, 1085, 1077,
      1076, 1086, 1089, 1090, 1091, 1087, 1085, 1072, 46, 32, 1055, 1086, 1078, 1072, 1083,
      1091, 1081, 1089, 1090, 1072, 44, 32, 1091, 1073, 1077, 1076, 1080, 1090, 1077, 1089,
      1100, 44, 32, 1095, 1090, 1086, 32, 71, 79, 79, 71, 76, 69, 95, 65, 80, 73, 95, 75,
      69, 89, 32, 1091, 1089, 1090, 1072, 1085, 1086, 1074, 1083, 1077, 1085, 32, 1087,
      1088, 1072, 1074, 1080, 1083, 1100, 1085, 1086, 46]"

text \<open>The invitation to ask questions, ending the dialog with /done (lines 173 to 174).\<close>

definition text_ai_ready :: py_str where
  "text_ai_ready =
     [1071, 32, 1075, 1086, 1090, 1086, 1074, 32, 1086, 1090, 1074, 1077, 1095, 1072, 1090,
      1100, 32, 1085, 1072, 32, 1074, 1072, 1096, 1080, 32, 1074, 1086, 1087, 1088, 1086,
      1089, 1099, 33, 32, 1057, 1087, 1088, 1086, 1089, 1080, 1090, 1077, 32, 1084, 1077,
      1085, 1103, 32, 1086, 32, 1095, 1077, 1084, 32, 1091, 1075, 1086, 1076, 1085, 1086,
      46, 32, 1063, 1090, 1086, 1073, 1099, 32, 1079, 1072, 1082, 1086, 1085, 1095, 1080,
      1090, 1100, 32, 1076, 1080, 1072, 1083, 1086, 1075, 32, 1089, 32, 1048, 1048, 44, 32,
      1074, 1074, 1077, 1076, 1080, 1090, 1077, 32, 47, 100, 111, 110, 101]"

text \<open>The request to enter the question as text (line 193).\<close>

definition text_enter_question :: py_str where
  "text_enter_question =
     [1055, 1086, 1078, 1072, 1083, 1091, 1081, 1089, 1090, 1072, 44, 32, 1074, 1074, 1077,
      1076, 1080, 1090, 1077, 32, 1074, 1072, 1096, 32, 1074, 1086, 1087, 1088, 1086, 1089,
      32, 1090, 1077, 1082, 1089, 1090, 1086, 1084, 46]"

text \<open>The apology for an error while processing the AI request (line 214).\<close>

definition text_ai_error :: py_str where
  "text_ai_error =
     [1048, 1079, 1074, 1080, 1085, 1080, 1090, 1077, 44, 32, 1087, 1088, 1086, 1080, 1079,
      1086, 1096, 1083, 1072, 32, 1086, 1096, 1080, 1073, 1082, 1072, 32, 1087, 1088, 1080,
      32, 1086, 1073, 1088, 1072, 1073, 1086, 1090, 1082, 1077, 32, 1074, 1072, 1096, 1077,
      1075, 1086, 32, 1079, 1072, 1087, 1088, 1086, 1089, 1072, 32, 1048, 1048, 46, 32,
      1055, 1086, 1078, 1072, 1083, 1091, 1081, 1089, 1090, 1072, 44, 32, 1087, 1086, 1087,
      1088, 1086, 1073, 1091, 1081, 1090, 1077, 32, 1077, 1097, 1077, 32, 1088, 1072, 1079,
      46]"

text \<open>The closing message of the AI dialog (line 219).\<close>

definition text_dialog_done :: py_str where
  "text_dialog_done =
     [1044, 1080, 1072, 1083, 1086, 1075, 32, 1089, 32, 1048, 1048, 32, 1079, 1072, 1074,
      1077, 1088, 1096, 1077, 1085, 46, 32, 1063, 1077, 1084, 32, 1077, 1097, 1077, 32,
      1084, 1086, 1075, 1091, 32, 1087, 1086, 1084, 1086, 1095, 1100, 63]"

text \<open>The message that the command was not understood (line 230).\<close>

definition text_not_understood :: py_str where
  "text_not_understood =
     [1048, 1079, 1074, 1080, 1085, 1080, 1090, 1077, 44, 32, 1103, 32, 1085, 1077, 32,
      1087, 1086, 1085, 1103, 1083, 32, 1074, 1072, 1096, 1091, 32, 1082, 1086, 1084, 1072,
      1085, 1076, 1091, 46, 32, 1048, 1089, 1087, 1086, 1083, 1100, 1079, 1091, 1081, 1090,
      1077, 32, 1082, 1085, 1086, 1087, 1082, 1080, 32, 1076, 1083, 1103, 32, 1074, 1079,
      1072, 1080, 1084, 1086, 1076, 1077, 1081, 1089, 1090, 1074, 1080, 1103, 46]"

section \<open>Updates, transport calls and the module's globals\<close>

text \<open>
  An inbound update, with the fields the handlers and the filters read. The bot polls
  with \<open>allowed_updates=Update.ALL_TYPES\<close>, so an update is a new message, an edited
  message, a channel post, an edited channel post or a button press; it carries one of
  the five. \<open>msg_text\<close> is the \<open>text\<close> of a message. \<open>bot_command\<close> is the command
  the message starts with (a \<open>bot_command\<close> entity at offset 0), in lower case, without
  the slash and without a bot's name, and \<open>None\<close> for a message that is not a command;
  \<open>for_this_bot\<close> says that the command names no bot or this one. \<open>cb_data\<close> is
  \<open>callback_query.data\<close>; the pressed button belongs to a message of the chat.
  \<open>chat_id\<close> and \<open>user_id\<close> are the ids of \<open>effective_chat\<close> and
  \<open>effective_user\<close>, and \<open>mention_html\<close> is what \<open>effective_user.mention_html()\<close>
  returns.
\<close>

record tg_message =
  msg_text :: "py_str option"
  bot_command :: "py_str option"
  for_this_bot :: bool

record tg_callback_query =
  cb_data :: "py_str option"

record tg_update =
  callback_query :: "tg_callback_query option"
  message :: "tg_message option"
  edited_message :: "tg_message option"
  channel_post :: "tg_message option"
  edited_channel_post :: "tg_message option"
  chat_id :: int
  user_id :: int
  mention_html :: py_str

text \<open>
  The inline keyboard that every menu carries: one row of two buttons, each a label and
  its \<open>callback_data\<close>.
\<close>

type_synonym keyboard = "(py_str \<times> py_str) list list"

definition main_keyboard :: keyboard where
  "main_keyboard =
     [[(label_show_products, ascii ''show_products''), (label_ask_ai, ascii ''ask_ai'')]]"

text \<open>
  The calls a handler makes on the transport and on the AI provider, in the order it makes
  them; logging is left out. A transport call outside a \<open>try\<close> is taken to be
  delivered (it returns). Inside the \<open>try\<close> of \<open>handle_ai_question\<close> a transport
  call that raises is caught; such a call is recorded as \<open>Refused\<close>.
  \<^item> \<open>AnswerCallbackQuery\<close>: \<open>query.answer()\<close>
  \<^item> \<open>ReplyHtml t k\<close>: \<open>message.reply_html(t, reply_markup=k)\<close>
  \<^item> \<open>ReplyText t k\<close>: \<open>message.reply_text(t, reply_markup=k)\<close>
  \<^item> \<open>EditMessageText t p\<close>: \<open>query.edit_message_text(text=t, parse_mode=p)\<close>
  \<^item> \<open>SendChatAction a\<close>: \<open>message.chat.send_action(a)\<close>
  \<^item> \<open>GenerateContent q\<close>: \<open>model.generate_content(q)\<close>
\<close>

datatype call =
    AnswerCallbackQuery
  | ReplyHtml py_str "keyboard option"
  | ReplyText py_str "keyboard option"
  | EditMessageText py_str "py_str option"
  | SendChatAction py_str
  | GenerateContent py_str
  | Refused call

text \<open>
  The Gemini model handle: \<open>generate_content(q).text\<close> either gives the answer or
  raises.
\<close>

type_synonym gemini_model = "py_str \<Rightarrow> py_exception + py_str"

text \<open>
  Module initialisation of \<open>model\<close> (lines 34 to 44): the handle exists only when
  \<open>GOOGLE_API_KEY\<close> is set and non-empty and the construction does not raise.
\<close>

definition init_model ::
  "py_str option \<Rightarrow> (py_exception + gemini_model) \<Rightarrow> gemini_model option" where
  "init_model GOOGLE_API_KEY constructed =
     (if truthy GOOGLE_API_KEY
      then (case constructed of Inl e \<Rightarrow> None | Inr m \<Rightarrow> Some m)
      else None)"

text \<open>
  What the handlers depend on besides the update: the global \<open>model\<close>, the database
  file, the rendering of a price by the format \<open>.2f\<close>, which is floating-point
  formatting and stays a parameter, and the transport's verdict on a call made inside a
  \<open>try\<close>: whether it delivers the call or raises (Telegram refuses, for one, an empty
  text and a text of more than 4096 characters).
\<close>

record globals =
  model :: "gemini_model option"
  bot_database :: database
  format_2f :: "rat \<Rightarrow> py_str"
  transport_delivers :: "call \<Rightarrow> bool"

definition ASK_AI_QUESTION :: int where
  "ASK_AI_QUESTION = 1"

text \<open>\<open>ConversationHandler.END\<close> of the framework.\<close>

definition ConversationHandler_END :: int where
  "ConversationHandler_END = - 1"

section \<open>The handlers\<close>

text \<open>
  A handler returns the calls it made and how it ended. Reading an attribute of
  \<open>update.message\<close> or \<open>update.callback_query\<close> when that is \<open>None\<close> raises
  \<open>AttributeError\<close>.
\<close>

definition start_command :: "globals \<Rightarrow> tg_update \<Rightarrow> call list \<times> unit outcome" where
  "start_command g u =
     (case message u of
        None \<Rightarrow> ([], Raised AttributeError)
      | Some m \<Rightarrow>
          ([ReplyHtml (text_greeting_head @ mention_html u @ text_greeting_tail)
              (Some main_keyboard)],
           Returned ()))"

definition help_command :: "globals \<Rightarrow> tg_update \<Rightarrow> call list \<times> unit outcome" where
  "help_command g u =
     (case message u of
        None \<Rightarrow> ([], Raised AttributeError)
      | Some m \<Rightarrow> ([ReplyText text_help None], Returned ()))"

text \<open>\<open>f"{description}"\<close>: a \<open>NULL\<close> description prints as \<open>None\<close>.\<close>

definition str_of_optional :: "py_str option \<Rightarrow> py_str" where
  "str_of_optional d = (case d of None \<Rightarrow> ascii ''None'' | Some s \<Rightarrow> s)"

text \<open>What one pass of the loop of \<open>show_products_callback\<close> appends (lines 122 to 129).\<close>

definition product_block :: "(rat \<Rightarrow> py_str) \<Rightarrow> product \<Rightarrow> py_str" where
  "product_block fmt p =
     (case p of (n, d, pr, i) \<Rightarrow>
        ascii ''<b>'' @ n @ text_after_name @ str_of_optional d @ text_before_price
          @ fmt pr @ [10]
          @ (case i of
               None \<Rightarrow> []
             | Some url \<Rightarrow> if url \<noteq> [] then text_image_label @ url @ [10] else [])
          @ [10])"

definition listing_text :: "(rat \<Rightarrow> py_str) \<Rightarrow> product list \<Rightarrow> py_str" where
  "listing_text fmt ps = fold (\<lambda>p acc. acc @ product_block fmt p) ps text_listing_head"

definition show_products_callback ::
  "globals \<Rightarrow> tg_update \<Rightarrow> call list \<times> unit outcome" where
  "show_products_callback g u =
     (case callback_query u of
        None \<Rightarrow> ([], Raised AttributeError)
      | Some query \<Rightarrow>
          let ps = get_products (bot_database g) in
          if ps \<noteq> []
          then ([AnswerCallbackQuery,
                 EditMessageText (listing_text (format_2f g) ps) (Some (ascii ''HTML'')),
                 ReplyText text_choose_next (Some main_keyboard)],
                Returned ())
          else ([AnswerCallbackQuery,
                 EditMessageText text_no_products None,
                 ReplyText text_choose_next (Some main_keyboard)],
                Returned ()))"

definition ask_ai_entry_point :: "globals \<Rightarrow> tg_update \<Rightarrow> call list \<times> int outcome" where
  "ask_ai_entry_point g u =
     (case (callback_query u, message u) of
        (None, None) \<Rightarrow> ([], Returned ConversationHandler_END)
      | (query, msg) \<Rightarrow>
          let answered = (case query of None \<Rightarrow> [] | Some q \<Rightarrow> [AnswerCallbackQuery]) in
          (case model g of
             None \<Rightarrow>
               (answered @ [ReplyText text_ai_unavailable None],
                Returned ConversationHandler_END)
           | Some gen \<Rightarrow>
               (answered @ [ReplyText text_ai_ready None]
                  @ (case query of
                       None \<Rightarrow> []
                     | Some q \<Rightarrow> [ReplyText text_choose_next (Some main_keyboard)]),
                Returned ASK_AI_QUESTION)))"

text \<open>
  \<open>handle_ai_question\<close> (lines 190 to 216). The \<open>try\<close> holds the typing action, the
  call of the model and the reply with the answer; whichever of them raises, the
  \<open>except\<close> sends the apology.
\<close>

definition handle_ai_question :: "globals \<Rightarrow> tg_update \<Rightarrow> call list \<times> int outcome" where
  "handle_ai_question g u =
     (case message u of
        None \<Rightarrow> ([], Raised AttributeError)
      | Some m \<Rightarrow>
          (case (if truthy (msg_text m) then msg_text m else None) of
             None \<Rightarrow> ([ReplyText text_enter_question None], Returned ASK_AI_QUESTION)
           | Some user_question \<Rightarrow>
               (case model g of
                  None \<Rightarrow>
                    ([ReplyText text_ai_unavailable None], Returned ConversationHandler_END)
                | Some gen \<Rightarrow>
                    if \<not> transport_delivers g (SendChatAction (ascii ''typing''))
                    then ([Refused (SendChatAction (ascii ''typing'')),
                           ReplyText text_ai_error None],
                          Returned ASK_AI_QUESTION)
                    else
                      (case gen user_question of
                         Inl e \<Rightarrow>
                           ([SendChatAction (ascii ''typing''), GenerateContent user_question,
                             ReplyText text_ai_error None],
                            Returned ASK_AI_QUESTION)
                       | Inr ai_response \<Rightarrow>
                           if transport_delivers g (ReplyText ai_response None)
                           then ([SendChatAction (ascii ''typing''),
                                  GenerateContent user_question,
                                  ReplyText ai_response None],
                                 Returned ASK_AI_QUESTION)
                           else ([SendChatAction (ascii ''typing''),
                                  GenerateContent user_question,
                                  Refused (ReplyText ai_response None),
                                  ReplyText text_ai_error None],
                                 Returned ASK_AI_QUESTION)))))"

definition done_ai_dialog :: "globals \<Rightarrow> tg_update \<Rightarrow> call list \<times> int outcome" where
  "done_ai_dialog g u =
     (case message u of
        None \<Rightarrow> ([], Raised AttributeError)
      | Some m \<Rightarrow>
          ([ReplyText text_dialog_done (Some main_keyboard)],
           Returned ConversationHandler_END))"

definition unknown_command :: "globals \<Rightarrow> tg_update \<Rightarrow> call list \<times> unit outcome" where
  "unknown_command g u =
     (case message u of
        None \<Rightarrow> ([], Raised AttributeError)
      | Some m \<Rightarrow>
          ([ReplyText text_not_understood (Some main_keyboard)], Returned ()))"

section \<open>Handler registration and dispatch (\<open>main\<close>)\<close>

text \<open>
  \<open>main\<close> registers five handlers in one group, in this order: the commands
  \<open>start\<close> and \<open>help\<close>, the callback pattern \<open>^show_products$\<close>, the
  conversation handler, and the text handler for \<open>unknown_command\<close>. The dispatching
  itself is the framework's (python-telegram-bot): within a group the first handler
  whose check accepts the update handles it and the others are skipped. The checks below
  follow the framework's documented behaviour for the filters that \<open>main\<close> passes.
\<close>

text \<open>
  \<open>re.match\<close> of a pattern \<open>^lit$\<close> with a literal \<open>lit\<close>: the data is the
  literal, possibly followed by one newline.
\<close>

definition re_match_anchored :: "py_str \<Rightarrow> py_str \<Rightarrow> bool" where
  "re_match_anchored lit d = (d = lit \<or> d = lit @ [10])"

text \<open>
  The message that a \<open>CommandHandler\<close> looks at: its update filter admits a new and
  an edited message, and it reads \<open>effective_message\<close>.
\<close>

definition command_message :: "tg_update \<Rightarrow> tg_message option" where
  "command_message u =
     (case message u of Some m \<Rightarrow> Some m | None \<Rightarrow> edited_message u)"

text \<open>
  The message that a message filter looks at: \<open>effective_message\<close> of an update that
  is a new or edited message or a new or edited channel post.
\<close>

definition filter_message :: "tg_update \<Rightarrow> tg_message option" where
  "filter_message u =
     (case command_message u of
        Some m \<Rightarrow> Some m
      | None \<Rightarrow> (case channel_post u of Some m \<Rightarrow> Some m | None \<Rightarrow> edited_channel_post u))"

text \<open>
  \<open>CommandHandler(c, ...)\<close> accepts a new or edited message that is the command
  \<open>c\<close> for this bot.
\<close>

definition command_update :: "py_str \<Rightarrow> tg_update \<Rightarrow> bool" where
  "command_update c u =
     (case command_message u of
        None \<Rightarrow> False
      | Some m \<Rightarrow> truthy (msg_text m) \<and> bot_command m = Some c \<and> for_this_bot m)"

text \<open>
  \<open>filters.TEXT & ~filters.COMMAND\<close>: a message or post, new or edited, with text
  that does not start with a command (for whichever bot).
\<close>

definition text_not_command :: "tg_update \<Rightarrow> bool" where
  "text_not_command u =
     (case filter_message u of
        None \<Rightarrow> False
      | Some m \<Rightarrow> truthy (msg_text m) \<and> bot_command m = None)"

text \<open>\<open>CallbackQueryHandler(..., pattern)\<close> accepts a button press whose data matches.\<close>

definition callback_update :: "py_str \<Rightarrow> tg_update \<Rightarrow> bool" where
  "callback_update lit u =
     (case callback_query u of
        None \<Rightarrow> False
      | Some q \<Rightarrow> (case cb_data q of None \<Rightarrow> False | Some d \<Rightarrow> re_match_anchored lit d))"

datatype handler =
    Start_command
  | Help_command
  | Show_products_callback
  | Ask_ai_entry_point
  | Handle_ai_question
  | Done_ai_dialog
  | Unknown_command

text \<open>
  The check of the conversation handler built in \<open>main\<close> (lines 251 to 260), given the
  state stored for the update's conversation (\<open>None\<close>: no conversation is active).
  Channel posts are ignored. Without an active conversation only the entry points are
  tried. Inside one, the handlers of the current state are tried in order and then the
  fallbacks; the entry points are not tried again (\<open>allow_reentry\<close> is off).
\<close>

definition conversation_check :: "int option \<Rightarrow> tg_update \<Rightarrow> handler option" where
  "conversation_check state u =
     (case (channel_post u, edited_channel_post u) of
        (None, None) \<Rightarrow>
          (case state of
             None \<Rightarrow>
               if callback_update (ascii ''ask_ai'') u then Some Ask_ai_entry_point else None
           | Some s \<Rightarrow>
               if s = ASK_AI_QUESTION \<and> text_not_command u then Some Handle_ai_question
               else if s = ASK_AI_QUESTION \<and> command_update (ascii ''done'') u
               then Some Done_ai_dialog
               else if command_update (ascii ''done'') u then Some Done_ai_dialog
               else None)
      | (post, edited_post) \<Rightarrow> None)"

text \<open>The handler that the application picks for an update, if any.\<close>

definition select_handler :: "int option \<Rightarrow> tg_update \<Rightarrow> handler option" where
  "select_handler state u =
     (if command_update (ascii ''start'') u then Some Start_command
      else if command_update (ascii ''help'') u then Some Help_command
      else if callback_update (ascii ''show_products'') u then Some Show_products_callback
      else (case conversation_check state u of
              Some h \<Rightarrow> Some h
            | None \<Rightarrow> if text_not_command u then Some Unknown_command else None))"

text \<open>
  The conversation states the framework keeps, by \<open>(chat id, user id)\<close>. After a
  handler of the conversation returns, \<open>END\<close> removes the entry and any other value is
  stored; when the handler raises, the entry stays as it is.
\<close>

type_synonym conversations = "(int \<times> int) \<Rightarrow> int option"

definition conversation_key :: "tg_update \<Rightarrow> int \<times> int" where
  "conversation_key u = (chat_id u, user_id u)"

definition update_state :: "conversations \<Rightarrow> int \<times> int \<Rightarrow> int outcome \<Rightarrow> conversations" where
  "update_state convs key result =
     (case result of
        Raised e \<Rightarrow> convs
      | Returned new_state \<Rightarrow>
          if new_state = ConversationHandler_END then convs(key := None)
          else convs(key \<mapsto> new_state))"

text \<open>
  Handling one update: the conversations afterwards and the calls made. An update that
  no handler accepts changes nothing and makes no call. A handler that raises leaves the
  conversations as they are (the application logs the error).
\<close>

definition process_update ::
  "globals \<Rightarrow> conversations \<Rightarrow> tg_update \<Rightarrow> conversations \<times> call list" where
  "process_update g convs u =
     (case select_handler (convs (conversation_key u)) u of
        None \<Rightarrow> (convs, [])
      | Some Start_command \<Rightarrow> (convs, fst (start_command g u))
      | Some Help_command \<Rightarrow> (convs, fst (help_command g u))
      | Some Show_products_callback \<Rightarrow> (convs, fst (show_products_callback g u))
      | Some Unknown_command \<Rightarrow> (convs, fst (unknown_command g u))
      | Some Ask_ai_entry_point \<Rightarrow>
          (update_state convs (conversation_key u) (snd (ask_ai_entry_point g u)),
           fst (ask_ai_entry_point g u))
      | Some Handle_ai_question \<Rightarrow>
          (update_state convs (conversation_key u) (snd (handle_ai_question g u)),
           fst (handle_ai_question g u))
      | Some Done_ai_dialog \<Rightarrow>
          (update_state convs (conversation_key u) (snd (done_ai_dialog g u)),
           fst (done_ai_dialog g u)))"

text \<open>Handling a sequence of updates one after the other, from given conversations.\<close>

fun run_polling ::
  "globals \<Rightarrow> conversations \<Rightarrow> tg_update list \<Rightarrow> conversations \<times> call list list" where
  "run_polling g convs [] = (convs, [])"
| "run_polling g convs (u # us) =
     (case process_update g convs u of
        (convs', calls) \<Rightarrow>
          (case run_polling g convs' us of
             (convs'', rest) \<Rightarrow> (convs'', calls # rest)))"

text \<open>
  \<open>main\<close>: initialise the database, register the handlers and poll. No conversation
  is stored when the polling starts.
\<close>

definition main :: "globals \<Rightarrow> tg_update list \<Rightarrow> conversations \<times> call list list" where
  "main g us = run_polling (g\<lparr>bot_database := init_db (bot_database g)\<rparr>) Map.empty us"

text \<open>
  The two states of the dialog as the framework stores them: \<open>IDLE\<close> is the absence of
  an entry, \<open>AWAITING_AI_QUESTION\<close> is the entry \<open>ASK_AI_QUESTION\<close>.
\<close>

definition valid_states :: "conversations \<Rightarrow> bool" where
  "valid_states convs = (\<forall>key. convs key \<in> {None, Some ASK_AI_QUESTION})"

text \<open>
  The two kinds of update that the handlers are written for: a new message, and the press
  of a button.
\<close>

definition new_message :: "tg_update \<Rightarrow> bool" where
  "new_message u =
     (message u \<noteq> None \<and> callback_query u = None \<and> edited_message u = None \<and>
      channel_post u = None \<and> edited_channel_post u = None)"


text \<open>
  The outbound messages among the calls (a refused call delivers nothing), and the button
  acknowledgments.
\<close>

fun is_message :: "call \<Rightarrow> bool" where
  "is_message (ReplyHtml t k) = True"
| "is_message (ReplyText t k) = True"
| "is_message (EditMessageText t p) = True"
| "is_message c = False"

fun is_ai_call :: "call \<Rightarrow> bool" where
  "is_ai_call (GenerateContent q) = True"
| "is_ai_call c = False"

definition count_messages :: "call list \<Rightarrow> nat" where
  "count_messages cs = length (filter is_message cs)"


section \<open>Sample inputs\<close>

text \<open>
  Concrete stores, globals and updates on which the theorems below are instantiated: a
  seeded store; a model that answers every question by repeating it, except that it
  raises on the question \<open>fail\<close> and answers the question \<open>long\<close> with 5000
  letters; a transport that refuses an empty text and a text of more than 4096
  characters, as the Bot API does; and updates of user 7 in chat 5.
\<close>

definition sample_store :: database where
  "sample_store = init_db \<lparr>available = True, products = None, sqlite_sequence = 0\<rparr>"

text \<open>The seeded store when the file cannot be read, and a readable store without rows.\<close>

definition sample_store_unreadable :: database where
  "sample_store_unreadable = sample_store\<lparr>available := False\<rparr>"

definition sample_store_bare :: database where
  "sample_store_bare = \<lparr>available = True, products = Some [], sqlite_sequence = 0\<rparr>"

definition sample_model :: gemini_model where
  "sample_model q =
     (if q = ascii ''fail'' then Inl ProviderError
      else if q = ascii ''long'' then Inr (replicate 5000 97)
      else Inr q)"

fun sample_transport :: "call \<Rightarrow> bool" where
  "sample_transport (ReplyText t k) = (t \<noteq> [] \<and> length t \<le> 4096)"
| "sample_transport (ReplyHtml t k) = (t \<noteq> [] \<and> length t \<le> 4096)"
| "sample_transport (EditMessageText t p) = (t \<noteq> [] \<and> length t \<le> 4096)"
| "sample_transport c = True"

definition sample_globals :: globals where
  "sample_globals =
     \<lparr>model = Some sample_model, bot_database = sample_store, format_2f = (\<lambda>r. []),
      transport_delivers = sample_transport\<rparr>"

definition sample_globals_no_ai :: globals where
  "sample_globals_no_ai =
     \<lparr>model = None, bot_database = sample_store, format_2f = (\<lambda>r. []),
      transport_delivers = sample_transport\<rparr>"

text \<open>A new message with a text that is not a command.\<close>

definition sample_text :: "py_str \<Rightarrow> tg_update" where
  "sample_text t =
     \<lparr>callback_query = None,
      message = Some \<lparr>msg_text = Some t, bot_command = None, for_this_bot = False\<rparr>,
      edited_message = None, channel_post = None, edited_channel_post = None,
      chat_id = 5, user_id = 7, mention_html = ascii ''user''\<rparr>"

text \<open>A new message that is the command \<open>/c\<close>.\<close>

definition sample_command :: "py_str \<Rightarrow> tg_update" where
  "sample_command c =
     \<lparr>callback_query = None,
      message = Some \<lparr>msg_text = Some (47 # c), bot_command = Some c, for_this_bot = True\<rparr>,
      edited_message = None, channel_post = None, edited_channel_post = None,
      chat_id = 5, user_id = 7, mention_html = ascii ''user''\<rparr>"

text \<open>A new message without text: a photo.\<close>

definition sample_photo :: tg_update where
  "sample_photo =
     \<lparr>callback_query = None,
      message = Some \<lparr>msg_text = None, bot_command = None, for_this_bot = False\<rparr>,
      edited_message = None, channel_post = None, edited_channel_post = None,
      chat_id = 5, user_id = 7, mention_html = ascii ''user''\<rparr>"

text \<open>The press of a button with data \<open>d\<close>.\<close>

definition sample_press :: "py_str \<Rightarrow> tg_update" where
  "sample_press d =
     \<lparr>callback_query = Some \<lparr>cb_data = Some d\<rparr>,
      message = None,
      edited_message = None, channel_post = None, edited_channel_post = None,
      chat_id = 5, user_id = 7, mention_html = ascii ''user''\<rparr>"

text \<open>The conversations at the start of the bot: no session has an entry.\<close>

definition sample_idle :: conversations where
  "sample_idle = Map.empty"

text \<open>The conversations with one entry, for user 7 in chat 5, in state \<open>ASK_AI_QUESTION\<close>.\<close>

definition sample_awaiting :: conversations where
  "sample_awaiting = Map.empty((5, 7) \<mapsto> ASK_AI_QUESTION)"

section \<open>Seeding and listing\<close>

lemma insert_product_full:
  "max_rowid \<le> sqlite_sequence db \<Longrightarrow> insert_product p db = Inl OperationalError"
  by (simp add: insert_product_def case_prod_beta split: option.splits)

lemma insert_product_room:
  "products db = Some rs \<Longrightarrow> sqlite_sequence db < max_rowid \<Longrightarrow>
   insert_product p db =
     Inr (db\<lparr>products :=
               Some (rs @ [\<lparr>row_id = Suc (sqlite_sequence db), name = fst p,
                             description = fst (snd p), price = fst (snd (snd p)),
                             image_url = snd (snd (snd p))\<rparr>]),
             sqlite_sequence := Suc (sqlite_sequence db)\<rparr>)"
  by (simp add: insert_product_def case_prod_beta)

lemma init_db_unavailable: "\<not> available db \<Longrightarrow> init_db db = db"
  by (simp add: init_db_def init_db_body_def)

lemma init_db_nonempty:
  "products db = Some rs \<Longrightarrow> rs \<noteq> [] \<Longrightarrow> init_db db = db"
  by (cases "available db")
     (simp_all add: init_db_def init_db_body_def create_table_if_not_exists_def
        count_products_def)

text \<open>The table as \<open>CREATE TABLE IF NOT EXISTS\<close> leaves it.\<close>

lemma created_table:
  "products (create_table_if_not_exists db)
     = Some (case products db of None \<Rightarrow> [] | Some rs \<Rightarrow> rs)"
  "sqlite_sequence (create_table_if_not_exists db) = sqlite_sequence db"
  "available (create_table_if_not_exists db) = available db"
  by (simp_all add: create_table_if_not_exists_def split: option.splits)

lemma init_db_empty_room:
  assumes "available db" and "products db = None \<or> products db = Some []"
    and "sqlite_sequence db + 2 \<le> max_rowid"
  shows "init_db db =
           db\<lparr>products :=
                Some [\<lparr>row_id = Suc (sqlite_sequence db), name = fst sample_laptop,
                       description = fst (snd sample_laptop),
                       price = fst (snd (snd sample_laptop)),
                       image_url = snd (snd (snd sample_laptop))\<rparr>,
                      \<lparr>row_id = Suc (Suc (sqlite_sequence db)), name = fst sample_phone,
                       description = fst (snd sample_phone),
                       price = fst (snd (snd sample_phone)),
                       image_url = snd (snd (snd sample_phone))\<rparr>],
              sqlite_sequence := Suc (Suc (sqlite_sequence db))\<rparr>"
proof -
  let ?db1 = "create_table_if_not_exists db"
  have table: "products ?db1 = Some []"
    using assms(2) by (auto simp: created_table)
  have first: "sqlite_sequence ?db1 < max_rowid"
    using assms(3) by (simp add: created_table)
  let ?row1 = "\<lparr>row_id = Suc (sqlite_sequence db), name = fst sample_laptop,
                description = fst (snd sample_laptop),
                price = fst (snd (snd sample_laptop)),
                image_url = snd (snd (snd sample_laptop))\<rparr>"
  let ?row2 = "\<lparr>row_id = Suc (Suc (sqlite_sequence db)), name = fst sample_phone,
                description = fst (snd sample_phone),
                price = fst (snd (snd sample_phone)),
                image_url = snd (snd (snd sample_phone))\<rparr>"
  let ?db2 = "?db1\<lparr>products := Some [?row1], sqlite_sequence := Suc (sqlite_sequence db)\<rparr>"
  have laptop: "insert_product sample_laptop ?db1 = Inr ?db2"
    using insert_product_room [OF table first, of sample_laptop]
    by (simp add: created_table)
  have table2: "products ?db2 = Some [?row1]"
    by simp
  have room2: "sqlite_sequence ?db2 < max_rowid"
    using assms(3) by simp
  have second: "insert_product sample_phone ?db2
                  = Inr (?db1\<lparr>products := Some [?row1, ?row2],
                              sqlite_sequence := Suc (Suc (sqlite_sequence db))\<rparr>)"
    using insert_product_room [OF table2 room2, of sample_phone]
    by simp
  have "?db1\<lparr>products := Some rows, sqlite_sequence := n\<rparr>
          = db\<lparr>products := Some rows, sqlite_sequence := n\<rparr>" for rows n
    by (simp add: create_table_if_not_exists_def split: option.splits)
  with assms(1) table laptop second show ?thesis
    by (simp add: init_db_def init_db_body_def count_products_def Let_def)
qed

lemma init_db_empty_full:
  assumes "available db" and "products db = None \<or> products db = Some []"
    and "\<not> sqlite_sequence db + 2 \<le> max_rowid"
  shows "init_db db = db\<lparr>products := Some []\<rparr>"
proof -
  let ?db1 = "create_table_if_not_exists db"
  have table: "products ?db1 = Some []"
    using assms(2) by (auto simp: created_table)
  have same: "?db1 = db\<lparr>products := Some []\<rparr>"
    using assms(2) by (auto simp: create_table_if_not_exists_def)
  show ?thesis
  proof (cases "max_rowid \<le> sqlite_sequence db")
    case True
    then have "insert_product sample_laptop ?db1 = Inl OperationalError"
      by (simp add: insert_product_full created_table)
    with assms(1) table same show ?thesis
      by (simp add: init_db_def init_db_body_def count_products_def Let_def)
  next
    case False
    then have first: "sqlite_sequence ?db1 < max_rowid"
      by (simp add: created_table)
    let ?db2 = "?db1\<lparr>products :=
                       Some [\<lparr>row_id = Suc (sqlite_sequence db), name = fst sample_laptop,
                              description = fst (snd sample_laptop),
                              price = fst (snd (snd sample_laptop)),
                              image_url = snd (snd (snd sample_laptop))\<rparr>],
                     sqlite_sequence := Suc (sqlite_sequence db)\<rparr>"
    have laptop: "insert_product sample_laptop ?db1 = Inr ?db2"
      using insert_product_room [OF table first, of sample_laptop]
      by (simp add: created_table)
    have "max_rowid \<le> sqlite_sequence ?db2"
      using assms(3) by simp
    then have phone: "insert_product sample_phone ?db2 = Inl OperationalError"
      by (rule insert_product_full)
    with assms(1) table laptop same show ?thesis
      by (simp add: init_db_def init_db_body_def count_products_def Let_def)
  qed
qed

lemma listing_init_db_empty:
  "available db \<Longrightarrow> products db = None \<or> products db = Some [] \<Longrightarrow>
   sqlite_sequence db + 2 \<le> max_rowid \<Longrightarrow>
   map_option (map select_columns) (products (init_db db)) = Some [sample_laptop, sample_phone]"
  by (simp add: init_db_empty_room select_columns_def)

lemma available_init_db: "available (init_db db) = available db"
proof (cases "available db")
  case False
  then show ?thesis by (simp add: init_db_unavailable)
next
  case True
  show ?thesis
  proof (cases "products db = None \<or> products db = Some []")
    case empty: True
    show ?thesis
      by (cases "sqlite_sequence db + 2 \<le> max_rowid")
         (simp_all add: init_db_empty_room [OF True empty] init_db_empty_full [OF True empty])
  next
    case False
    then obtain rs where "products db = Some rs" "rs \<noteq> []" by auto
    then show ?thesis by (simp add: init_db_nonempty)
  qed
qed

text \<open>
  C5. Seeding an empty store (reachable, with the table missing or without rows, and
  with room for two more rowids, as every store has that has not handed out nearly all
  of its \<open>2^63 - 1\<close> rowids) and then listing returns exactly the two sample products,
  the laptop first and the phone second, each with its name, description, price and image
  reference.
\<close>

theorem seed_then_list_roundtrip:
  assumes "available db" and "products db = None \<or> products db = Some []"
    and "sqlite_sequence db + 2 \<le> max_rowid"
  shows "get_products (init_db db) = [sample_laptop, sample_phone]"
proof -
  have "available (init_db db)"
    using assms(1) by (simp add: available_init_db)
  then show ?thesis
    using listing_init_db_empty [OF assms]
    by (auto simp: get_products_def get_products_body_def)
qed

theorem seed_then_list_roundtrip_witness:
  "available \<lparr>available = True, products = None, sqlite_sequence = 0\<rparr> \<and>
   sqlite_sequence \<lparr>available = True, products = None, sqlite_sequence = 0\<rparr> + 2
     \<le> max_rowid \<and>
   get_products (init_db \<lparr>available = True, products = None, sqlite_sequence = 0\<rparr>)
     = [sample_laptop, sample_phone]"
  using seed_then_list_roundtrip
          [of "\<lparr>available = True, products = None, sqlite_sequence = 0\<rparr>"]
  by (simp add: max_rowid_def)

text \<open>
  When the rowids are used up the inserts raise, \<open>init_db\<close> swallows the exception
  and the table stays empty.
\<close>

lemma seed_without_rowids:
  assumes "available db" and "products db = Some []"
    and "\<not> sqlite_sequence db + 2 \<le> max_rowid"
  shows "init_db db = db" and "get_products (init_db db) = []"
proof -
  have "init_db db = db\<lparr>products := Some []\<rparr>"
    using assms by (intro init_db_empty_full) simp_all
  with assms(2) show same: "init_db db = db" by simp
  from assms(1,2) show "get_products (init_db db) = []"
    by (simp add: same get_products_def get_products_body_def)
qed

lemma init_db_twice: "init_db (init_db db) = init_db db"
proof (cases "available db")
  case False
  then show ?thesis by (simp add: init_db_unavailable)
next
  case True
  show ?thesis
  proof (cases "products db = None \<or> products db = Some []")
    case empty: True
    show ?thesis
    proof (cases "sqlite_sequence db + 2 \<le> max_rowid")
      case room: True
      have "\<exists>rs. products (init_db db) = Some rs \<and> rs \<noteq> []"
        by (simp add: init_db_empty_room [OF True empty room])
      then show ?thesis
        using init_db_nonempty by blast
    next
      case False
      have left: "init_db db = db\<lparr>products := Some []\<rparr>"
        using True empty False by (rule init_db_empty_full)
      have "init_db (db\<lparr>products := Some []\<rparr>) = db\<lparr>products := Some []\<rparr>\<lparr>products := Some []\<rparr>"
        using True False by (intro init_db_empty_full) simp_all
      with left show ?thesis by simp
    qed
  next
    case False
    then obtain rs where "products db = Some rs" "rs \<noteq> []" by auto
    then show ?thesis by (simp add: init_db_nonempty)
  qed
qed

text \<open>
  C9. The bootstrap is idempotent: running \<open>init_db\<close> twice gives the same store as
  running it once, and on a store whose product table already has a row it changes
  nothing (the samples are inserted only when the table is empty).
\<close>

theorem init_db_idempotent:
  "init_db (init_db db) = init_db db \<and>
   (products db = Some rs \<and> rs \<noteq> [] \<longrightarrow> init_db db = db)"
proof (intro conjI impI)
  show "init_db (init_db db) = init_db db"
    by (rule init_db_twice)
next
  assume "products db = Some rs \<and> rs \<noteq> []"
  then show "init_db db = db" by (simp add: init_db_nonempty)
qed

theorem init_db_idempotent_witness:
  "init_db (init_db \<lparr>available = True, products = Some [], sqlite_sequence = 0\<rparr>)
     = init_db \<lparr>available = True, products = Some [], sqlite_sequence = 0\<rparr> \<and>
   products (init_db \<lparr>available = True, products = Some [], sqlite_sequence = 0\<rparr>)
     = Some [\<lparr>row_id = 1, name = fst sample_laptop, description = fst (snd sample_laptop),
              price = fst (snd (snd sample_laptop)), image_url = snd (snd (snd sample_laptop))\<rparr>,
             \<lparr>row_id = 2, name = fst sample_phone, description = fst (snd sample_phone),
              price = fst (snd (snd sample_phone)), image_url = snd (snd (snd sample_phone))\<rparr>] \<and>
   init_db \<lparr>available = True,
            products = Some [\<lparr>row_id = 7, name = ascii ''Pen'', description = None,
                              price = 3 / 2, image_url = None\<rparr>],
            sqlite_sequence = 7\<rparr>
     = \<lparr>available = True,
        products = Some [\<lparr>row_id = 7, name = ascii ''Pen'', description = None,
                          price = 3 / 2, image_url = None\<rparr>],
        sqlite_sequence = 7\<rparr>"
proof (intro conjI)
  show "init_db (init_db \<lparr>available = True, products = Some [], sqlite_sequence = 0\<rparr>)
     = init_db \<lparr>available = True, products = Some [], sqlite_sequence = 0\<rparr>"
    using init_db_idempotent
            [of "\<lparr>available = True, products = Some [], sqlite_sequence = 0\<rparr>"]
    by blast
next
  show "products (init_db \<lparr>available = True, products = Some [], sqlite_sequence = 0\<rparr>)
     = Some [\<lparr>row_id = 1, name = fst sample_laptop, description = fst (snd sample_laptop),
              price = fst (snd (snd sample_laptop)), image_url = snd (snd (snd sample_laptop))\<rparr>,
             \<lparr>row_id = 2, name = fst sample_phone, description = fst (snd sample_phone),
              price = fst (snd (snd sample_phone)), image_url = snd (snd (snd sample_phone))\<rparr>]"
    by (subst init_db_empty_room) (simp_all add: max_rowid_def)
next
  show "init_db \<lparr>available = True,
            products = Some [\<lparr>row_id = 7, name = ascii ''Pen'', description = None,
                              price = 3 / 2, image_url = None\<rparr>],
            sqlite_sequence = 7\<rparr>
     = \<lparr>available = True,
        products = Some [\<lparr>row_id = 7, name = ascii ''Pen'', description = None,
                          price = 3 / 2, image_url = None\<rparr>],
        sqlite_sequence = 7\<rparr>"
    using init_db_idempotent
            [of "\<lparr>available = True,
                  products = Some [\<lparr>row_id = 7, name = ascii ''Pen'', description = None,
                                    price = 3 / 2, image_url = None\<rparr>],
                  sqlite_sequence = 7\<rparr>"
                "[\<lparr>row_id = 7, name = ascii ''Pen'', description = None,
                   price = 3 / 2, image_url = None\<rparr>]"]
    by simp
qed

section \<open>The states of the dialog\<close>

lemma entry_point_returns:
  "snd (ask_ai_entry_point g u) = Returned r \<Longrightarrow>
   r = ASK_AI_QUESTION \<or> r = ConversationHandler_END"
  by (auto simp: ask_ai_entry_point_def Let_def split: option.splits)

lemma question_returns:
  "snd (handle_ai_question g u) = Returned r \<Longrightarrow>
   r = ASK_AI_QUESTION \<or> r = ConversationHandler_END"
  by (auto simp: handle_ai_question_def split: option.splits sum.splits if_splits)

lemma done_returns:
  "snd (done_ai_dialog g u) = Returned r \<Longrightarrow> r = ConversationHandler_END"
  by (auto simp: done_ai_dialog_def split: option.splits)

lemma update_state_valid:
  assumes "valid_states convs"
    and "\<And>r. result = Returned r \<Longrightarrow> r = ASK_AI_QUESTION \<or> r = ConversationHandler_END"
  shows "valid_states (update_state convs key result)"
proof (cases result)
  case (Returned r)
  with assms(2) have "r = ASK_AI_QUESTION \<or> r = ConversationHandler_END" by simp
  with assms(1) Returned show ?thesis
    by (auto simp: valid_states_def update_state_def)
next
  case (Raised e)
  with assms(1) show ?thesis by (simp add: update_state_def)
qed

lemma process_update_valid:
  assumes "valid_states convs"
  shows "valid_states (fst (process_update g convs u))"
proof (cases "select_handler (convs (conversation_key u)) u")
  case None
  with assms show ?thesis by (simp add: process_update_def)
next
  case (Some h)
  show ?thesis
  proof (cases h)
    case Ask_ai_entry_point
    with Some assms show ?thesis
      by (simp add: process_update_def update_state_valid entry_point_returns)
  next
    case Handle_ai_question
    with Some assms show ?thesis
      by (simp add: process_update_def update_state_valid question_returns)
  next
    case Done_ai_dialog
    with Some assms show ?thesis
      by (simp add: process_update_def update_state_valid done_returns)
  qed (use Some assms in \<open>simp_all add: process_update_def\<close>)
qed

lemma run_polling_valid:
  "valid_states convs \<Longrightarrow> valid_states (fst (run_polling g convs us))"
proof (induction us arbitrary: convs)
  case Nil
  then show ?case by simp
next
  case (Cons u us)
  have "valid_states (fst (process_update g convs u))"
    using Cons.prems by (rule process_update_valid)
  then have "valid_states (fst (run_polling g (fst (process_update g convs u)) us))"
    by (rule Cons.IH)
  then show ?case by (simp add: case_prod_beta)
qed

lemma valid_states_empty: "valid_states Map.empty"
  by (simp add: valid_states_def)

text \<open>
  C1. Every handler of the AI conversation (entry, question handling, termination), when
  it returns, returns \<open>ASK_AI_QUESTION\<close> or the conversation-end value and nothing else.
  Hence handling an update keeps every session in one of the two states \<open>IDLE\<close> (no
  entry) and \<open>AWAITING_AI_QUESTION\<close>, and so does any sequence of updates handled from
  the start of the bot (\<open>main\<close>), when no conversation is stored.
\<close>

theorem dialog_state_idle_or_awaiting:
  "(\<forall>r. snd (ask_ai_entry_point g u) = Returned r \<longrightarrow>
        r \<in> {ASK_AI_QUESTION, ConversationHandler_END}) \<and>
   (\<forall>r. snd (handle_ai_question g u) = Returned r \<longrightarrow>
        r \<in> {ASK_AI_QUESTION, ConversationHandler_END}) \<and>
   (\<forall>r. snd (done_ai_dialog g u) = Returned r \<longrightarrow>
        r \<in> {ASK_AI_QUESTION, ConversationHandler_END}) \<and>
   (valid_states convs \<longrightarrow> valid_states (fst (process_update g convs u))) \<and>
   (\<forall>key. fst (run_polling g Map.empty us) key \<in> {None, Some ASK_AI_QUESTION}) \<and>
   (\<forall>key. fst (main g us) key \<in> {None, Some ASK_AI_QUESTION})"
proof (intro conjI allI impI)
  fix r assume "snd (ask_ai_entry_point g u) = Returned r"
  then show "r \<in> {ASK_AI_QUESTION, ConversationHandler_END}"
    using entry_point_returns by blast
next
  fix r assume "snd (handle_ai_question g u) = Returned r"
  then show "r \<in> {ASK_AI_QUESTION, ConversationHandler_END}"
    using question_returns by blast
next
  fix r assume "snd (done_ai_dialog g u) = Returned r"
  then show "r \<in> {ASK_AI_QUESTION, ConversationHandler_END}"
    using done_returns by blast
next
  assume "valid_states convs"
  then show "valid_states (fst (process_update g convs u))"
    by (rule process_update_valid)
next
  fix key
  have "valid_states (fst (run_polling g Map.empty us))"
    using valid_states_empty by (rule run_polling_valid)
  then show "fst (run_polling g Map.empty us) key \<in> {None, Some ASK_AI_QUESTION}"
    unfolding valid_states_def by blast
next
  fix key
  have "valid_states (fst (main g us))"
    unfolding main_def using valid_states_empty by (rule run_polling_valid)
  then show "fst (main g us) key \<in> {None, Some ASK_AI_QUESTION}"
    unfolding valid_states_def by blast
qed

theorem dialog_state_idle_or_awaiting_witness:
  "snd (ask_ai_entry_point sample_globals (sample_press (ascii ''ask_ai'')))
     = Returned ASK_AI_QUESTION \<and>
   ASK_AI_QUESTION \<in> {ASK_AI_QUESTION, ConversationHandler_END} \<and>
   valid_states Map.empty \<and>
   valid_states
     (fst (process_update sample_globals Map.empty (sample_press (ascii ''ask_ai'')))) \<and>
   fst (run_polling sample_globals Map.empty
          [sample_press (ascii ''ask_ai''), sample_text (ascii ''hello''),
           sample_command (ascii ''done'')]) (5, 7)
     \<in> {None, Some ASK_AI_QUESTION}"
proof -
  note inst = dialog_state_idle_or_awaiting
                [of sample_globals "sample_press (ascii ''ask_ai'')" Map.empty
                    "[sample_press (ascii ''ask_ai''), sample_text (ascii ''hello''),
                      sample_command (ascii ''done'')]"]
  have entry: "snd (ask_ai_entry_point sample_globals (sample_press (ascii ''ask_ai'')))
                 = Returned ASK_AI_QUESTION"
    by (simp add: ask_ai_entry_point_def sample_globals_def sample_press_def)
  have start: "valid_states Map.empty"
    by (simp add: valid_states_def)
  from inst entry have "ASK_AI_QUESTION \<in> {ASK_AI_QUESTION, ConversationHandler_END}"
    by blast
  moreover from inst start
  have "valid_states
          (fst (process_update sample_globals Map.empty (sample_press (ascii ''ask_ai''))))"
    by blast
  moreover from inst
  have "fst (run_polling sample_globals Map.empty
               [sample_press (ascii ''ask_ai''), sample_text (ascii ''hello''),
                sample_command (ascii ''done'')]) (5, 7)
          \<in> {None, Some ASK_AI_QUESTION}"
    by blast
  ultimately show ?thesis
    using entry start by blast
qed

section \<open>The dialog without a model\<close>

lemma entry_point_unconfigured:
  "model g = None \<Longrightarrow>
   ask_ai_entry_point g u =
     (case (callback_query u, message u) of
        (None, None) \<Rightarrow> ([], Returned ConversationHandler_END)
      | (None, Some m) \<Rightarrow>
          ([ReplyText text_ai_unavailable None], Returned ConversationHandler_END)
      | (Some q, msg) \<Rightarrow>
          ([AnswerCallbackQuery, ReplyText text_ai_unavailable None],
           Returned ConversationHandler_END))"
  by (simp add: ask_ai_entry_point_def split: option.splits)

lemmas filter_defs =
  command_update_def text_not_command_def callback_update_def command_message_def
  filter_message_def re_match_anchored_def

lemma select_entry_point:
  "select_handler state u = Some Ask_ai_entry_point \<Longrightarrow>
   state = None \<and> callback_query u \<noteq> None"
  by (auto simp: select_handler_def conversation_check_def callback_update_def
        split: if_splits option.splits)

lemma select_question:
  "select_handler state u = Some Handle_ai_question \<Longrightarrow>
   state = Some ASK_AI_QUESTION \<and> text_not_command u"
  by (auto simp: select_handler_def conversation_check_def
        split: if_splits option.splits)

lemma select_done:
  "select_handler state u = Some Done_ai_dialog \<Longrightarrow>
   state \<noteq> None \<and> command_update (ascii ''done'') u"
  by (auto simp: select_handler_def conversation_check_def
        split: if_splits option.splits)

lemma process_update_unconfigured:
  assumes "model g = None" and "convs (conversation_key u) = None"
  shows "fst (process_update g convs u) = convs"
    and "\<not> list_ex is_ai_call (snd (process_update g convs u))"
proof -
  let ?sel = "select_handler (convs (conversation_key u)) u"
  have not_question: "?sel \<noteq> Some Handle_ai_question"
    using assms(2) select_question by fastforce
  have not_done: "?sel \<noteq> Some Done_ai_dialog"
    using assms(2) select_done by fastforce
  have same: "convs(conversation_key u := None) = convs"
    using assms(2) by (simp add: fun_upd_idem)
  show "fst (process_update g convs u) = convs"
  proof (cases ?sel)
    case None
    then show ?thesis by (simp add: process_update_def)
  next
    case (Some h)
    with not_question not_done same assms(1) show ?thesis
      by (cases h)
         (auto simp: process_update_def update_state_def entry_point_unconfigured
            split: option.splits)
  qed
  show "\<not> list_ex is_ai_call (snd (process_update g convs u))"
  proof (cases ?sel)
    case None
    then show ?thesis by (simp add: process_update_def)
  next
    case (Some h)
    with not_question not_done assms(1) show ?thesis
      by (cases h)
         (auto simp: process_update_def entry_point_unconfigured start_command_def
            help_command_def show_products_callback_def unknown_command_def Let_def
            split: option.splits)
  qed
qed

lemma run_polling_unconfigured:
  assumes "model g = None"
  shows "fst (run_polling g Map.empty us) = Map.empty
         \<and> list_all (\<lambda>calls. \<not> list_ex is_ai_call calls) (snd (run_polling g Map.empty us))"
proof (induction us)
  case Nil
  then show ?case by simp
next
  case (Cons u us)
  have "fst (process_update g Map.empty u) = Map.empty"
    using assms by (simp add: process_update_unconfigured)
  moreover have "\<not> list_ex is_ai_call (snd (process_update g Map.empty u))"
    using assms by (simp add: process_update_unconfigured)
  ultimately show ?case
    using Cons.IH by (simp add: case_prod_beta)
qed

text \<open>
  C2. Without a credential the model handle is absent. With the handle absent, every
  invocation of the AI entry point returns the conversation-end value and makes no AI
  call, and when the update carries a button press or a message (as every update that
  the router passes to the entry point does) it emits the unavailability message; the
  press of the AI button in state \<open>IDLE\<close> leaves the conversations as they were; and
  from the start of the bot no sequence of updates ever leaves \<open>IDLE\<close> or calls the
  AI.
\<close>

theorem unconfigured_entry_stays_idle:
  assumes "model g = None"
  shows
    "(\<not> truthy api_key \<longrightarrow> init_model api_key constructed = None) \<and>
     snd (ask_ai_entry_point g u) = Returned ConversationHandler_END \<and>
     \<not> list_ex is_ai_call (fst (ask_ai_entry_point g u)) \<and>
     (callback_query u \<noteq> None \<or> message u \<noteq> None \<longrightarrow>
        ReplyText text_ai_unavailable None \<in> set (fst (ask_ai_entry_point g u))) \<and>
     (select_handler (convs (conversation_key u)) u = Some Ask_ai_entry_point \<longrightarrow>
        process_update g convs u
          = (convs, [AnswerCallbackQuery, ReplyText text_ai_unavailable None])) \<and>
     fst (run_polling g Map.empty us) = Map.empty \<and>
     list_all (\<lambda>calls. \<not> list_ex is_ai_call calls) (snd (run_polling g Map.empty us))"
proof (intro conjI impI)
  show "init_model api_key constructed = None" if "\<not> truthy api_key"
    using that by (simp add: init_model_def)
  show "snd (ask_ai_entry_point g u) = Returned ConversationHandler_END"
    using assms by (simp add: entry_point_unconfigured split: option.splits)
  show "\<not> list_ex is_ai_call (fst (ask_ai_entry_point g u))"
    using assms by (simp add: entry_point_unconfigured split: option.splits)
  show "ReplyText text_ai_unavailable None \<in> set (fst (ask_ai_entry_point g u))"
    if "callback_query u \<noteq> None \<or> message u \<noteq> None"
    using that assms by (auto simp: entry_point_unconfigured split: option.splits)
  show "process_update g convs u
          = (convs, [AnswerCallbackQuery, ReplyText text_ai_unavailable None])"
    if sel: "select_handler (convs (conversation_key u)) u = Some Ask_ai_entry_point"
  proof -
    from sel have idle: "convs (conversation_key u) = None"
      and press: "callback_query u \<noteq> None"
      using select_entry_point by blast+
    from idle have "convs(conversation_key u := None) = convs"
      by (simp add: fun_upd_idem)
    with sel press assms show ?thesis
      by (auto simp: process_update_def update_state_def entry_point_unconfigured
            split: option.splits)
  qed
  show "fst (run_polling g Map.empty us) = Map.empty"
    using run_polling_unconfigured [OF assms] by blast
  show "list_all (\<lambda>calls. \<not> list_ex is_ai_call calls) (snd (run_polling g Map.empty us))"
    using run_polling_unconfigured [OF assms] by blast
qed

lemma select_sample_press_ask_ai:
  "select_handler None (sample_press (ascii ''ask_ai'')) = Some Ask_ai_entry_point"
  by (simp add: select_handler_def conversation_check_def filter_defs sample_press_def
        ascii_def)

theorem unconfigured_entry_stays_idle_witness:
  "model sample_globals_no_ai = None \<and>
   init_model None (Inr sample_model) = None \<and>
   snd (ask_ai_entry_point sample_globals_no_ai (sample_press (ascii ''ask_ai'')))
     = Returned ConversationHandler_END \<and>
   ReplyText text_ai_unavailable None
     \<in> set (fst (ask_ai_entry_point sample_globals_no_ai (sample_press (ascii ''ask_ai'')))) \<and>
   process_update sample_globals_no_ai Map.empty (sample_press (ascii ''ask_ai''))
     = (Map.empty, [AnswerCallbackQuery, ReplyText text_ai_unavailable None]) \<and>
   fst (run_polling sample_globals_no_ai Map.empty
          [sample_press (ascii ''ask_ai''), sample_text (ascii ''hello'')]) = Map.empty"
proof -
  have absent: "model sample_globals_no_ai = None"
    by (simp add: sample_globals_no_ai_def)
  note inst = unconfigured_entry_stays_idle
                [OF absent, of None "Inr sample_model" "sample_press (ascii ''ask_ai'')"
                    Map.empty
                    "[sample_press (ascii ''ask_ai''), sample_text (ascii ''hello'')]"]
  have falsy: "\<not> truthy None"
    by simp
  have pressed: "callback_query (sample_press (ascii ''ask_ai'')) \<noteq> None"
    by (simp add: sample_press_def)
  have selected:
    "select_handler (Map.empty (conversation_key (sample_press (ascii ''ask_ai''))))
       (sample_press (ascii ''ask_ai'')) = Some Ask_ai_entry_point"
    by (simp add: select_sample_press_ask_ai)
  from inst falsy pressed selected absent show ?thesis
    by blast
qed

section \<open>Handling a question\<close>

lemma update_state_same:
  "convs key = Some s \<Longrightarrow> s \<noteq> ConversationHandler_END \<Longrightarrow>
   update_state convs key (Returned s) = convs"
  by (auto simp: update_state_def)

lemma awaiting_not_end: "ASK_AI_QUESTION \<noteq> ConversationHandler_END"
  by (simp add: ASK_AI_QUESTION_def ConversationHandler_END_def)

text \<open>A new message is the message that both kinds of filter look at.\<close>

lemma new_message_filters:
  "new_message u \<Longrightarrow> message u = Some m \<Longrightarrow>
   command_message u = Some m \<and> filter_message u = Some m"
  by (simp add: command_message_def filter_message_def)

lemma new_message_no_press: "new_message u \<Longrightarrow> \<not> callback_update lit u"
  by (simp add: new_message_def callback_update_def)

text \<open>Inside a conversation a new text that is not a command is a question.\<close>

lemma question_routed:
  assumes "new_message u" and "message u = Some m" and "truthy (msg_text m)"
    and "bot_command m = None"
  shows "select_handler (Some ASK_AI_QUESTION) u = Some Handle_ai_question"
proof -
  have "\<not> command_update c u" for c
    using assms new_message_filters [OF assms(1,2)] by (simp add: command_update_def)
  moreover have "text_not_command u"
    using assms new_message_filters [OF assms(1,2)] by (simp add: text_not_command_def)
  moreover have "channel_post u = None" "edited_channel_post u = None"
    using assms(1) by (simp_all add: new_message_def)
  ultimately show ?thesis
    using new_message_no_press [OF assms(1)]
    by (simp add: select_handler_def conversation_check_def)
qed

lemma question_with_model:
  assumes "message u = Some m" and "msg_text m = Some q" and "q \<noteq> []"
    and "model g = Some gen"
  shows "handle_ai_question g u =
           ((if \<not> transport_delivers g (SendChatAction (ascii ''typing''))
             then [Refused (SendChatAction (ascii ''typing'')), ReplyText text_ai_error None]
             else
               (case gen q of
                  Inl e \<Rightarrow>
                    [SendChatAction (ascii ''typing''), GenerateContent q,
                     ReplyText text_ai_error None]
                | Inr a \<Rightarrow>
                    if transport_delivers g (ReplyText a None)
                    then [SendChatAction (ascii ''typing''), GenerateContent q,
                          ReplyText a None]
                    else [SendChatAction (ascii ''typing''), GenerateContent q,
                          Refused (ReplyText a None), ReplyText text_ai_error None])),
            Returned ASK_AI_QUESTION)"
  using assms by (simp add: handle_ai_question_def split: sum.splits)

text \<open>
  C3, as the code has it. A non-empty question that reaches the question handler while
  the model is configured always makes the handler return \<open>ASK_AI_QUESTION\<close>. After
  the typing action the handler calls the AI once. It sends the answer when the call
  succeeds and the transport delivers the answer. It sends the apology instead when the
  AI call raises, and also when the transport refuses the answer (the reply is inside
  the \<open>try\<close>) or refuses the typing action (then the AI is not called at all). A new
  text message that is not a command, received by a session in
  \<open>AWAITING_AI_QUESTION\<close>, is passed to this handler and leaves the stored
  conversations unchanged.
\<close>

theorem question_answer_or_apology:
  assumes "message u = Some m" and "msg_text m = Some q" and "q \<noteq> []"
    and "model g = Some gen"
  shows
    "snd (handle_ai_question g u) = Returned ASK_AI_QUESTION \<and>
     (\<forall>a. transport_delivers g (SendChatAction (ascii ''typing'')) \<and> gen q = Inr a \<and>
          transport_delivers g (ReplyText a None) \<longrightarrow>
          fst (handle_ai_question g u) =
            [SendChatAction (ascii ''typing''), GenerateContent q, ReplyText a None]) \<and>
     (\<forall>e. transport_delivers g (SendChatAction (ascii ''typing'')) \<and> gen q = Inl e \<longrightarrow>
          fst (handle_ai_question g u) =
            [SendChatAction (ascii ''typing''), GenerateContent q,
             ReplyText text_ai_error None]) \<and>
     (\<forall>a. transport_delivers g (SendChatAction (ascii ''typing'')) \<and> gen q = Inr a \<and>
          \<not> transport_delivers g (ReplyText a None) \<longrightarrow>
          fst (handle_ai_question g u) =
            [SendChatAction (ascii ''typing''), GenerateContent q,
             Refused (ReplyText a None), ReplyText text_ai_error None]) \<and>
     (\<not> transport_delivers g (SendChatAction (ascii ''typing'')) \<longrightarrow>
          fst (handle_ai_question g u) =
            [Refused (SendChatAction (ascii ''typing'')), ReplyText text_ai_error None]) \<and>
     (new_message u \<and> bot_command m = None \<and>
      convs (conversation_key u) = Some ASK_AI_QUESTION \<longrightarrow>
        process_update g convs u = (convs, fst (handle_ai_question g u)))"
proof -
  note handled = question_with_model [OF assms]
  have returned: "snd (handle_ai_question g u) = Returned ASK_AI_QUESTION"
    by (simp add: handled)
  have routed: "process_update g convs u = (convs, fst (handle_ai_question g u))"
    if "new_message u \<and> bot_command m = None \<and>
        convs (conversation_key u) = Some ASK_AI_QUESTION"
  proof -
    have "truthy (msg_text m)"
      using assms(2,3) by simp
    with that assms(1)
    have "select_handler (convs (conversation_key u)) u = Some Handle_ai_question"
      by (simp add: question_routed)
    moreover have "update_state convs (conversation_key u) (Returned ASK_AI_QUESTION) = convs"
      using that awaiting_not_end by (simp add: update_state_same)
    ultimately show ?thesis
      using returned by (simp add: process_update_def)
  qed
  show ?thesis
    using returned routed by (simp add: handled)
qed

lemma sample_text_new: "new_message (sample_text t)"
  by (simp add: new_message_def sample_text_def)

lemma sample_text_key: "conversation_key (sample_text t) = (5, 7)"
  by (simp add: conversation_key_def sample_text_def)

lemma select_sample_text_awaiting:
  "t \<noteq> [] \<Longrightarrow>
   select_handler (sample_awaiting (conversation_key (sample_text t))) (sample_text t)
     = Some Handle_ai_question"
proof -
  assume "t \<noteq> []"
  moreover have "message (sample_text t)
                   = Some \<lparr>msg_text = Some t, bot_command = None, for_this_bot = False\<rparr>"
    by (simp add: sample_text_def)
  ultimately
  have "select_handler (Some ASK_AI_QUESTION) (sample_text t) = Some Handle_ai_question"
    using question_routed [OF sample_text_new] by simp
  moreover have "sample_awaiting (conversation_key (sample_text t)) = Some ASK_AI_QUESTION"
    by (simp add: sample_text_key sample_awaiting_def)
  ultimately show ?thesis by simp
qed

theorem question_answer_or_apology_witness:
  "process_update sample_globals sample_awaiting (sample_text (ascii ''hello'')) =
     (sample_awaiting,
      [SendChatAction (ascii ''typing''), GenerateContent (ascii ''hello''),
       ReplyText (ascii ''hello'') None]) \<and>
   process_update sample_globals sample_awaiting (sample_text (ascii ''fail'')) =
     (sample_awaiting,
      [SendChatAction (ascii ''typing''), GenerateContent (ascii ''fail''),
       ReplyText text_ai_error None]) \<and>
   process_update sample_globals sample_awaiting (sample_text (ascii ''long'')) =
     (sample_awaiting,
      [SendChatAction (ascii ''typing''), GenerateContent (ascii ''long''),
       Refused (ReplyText (replicate 5000 97) None), ReplyText text_ai_error None]) \<and>
   snd (handle_ai_question sample_globals (sample_text (ascii ''long'')))
     = Returned ASK_AI_QUESTION"
proof -
  have msg: "message (sample_text t)
               = Some \<lparr>msg_text = Some t, bot_command = None, for_this_bot = False\<rparr>" for t
    by (simp add: sample_text_def)
  have content: "msg_text \<lparr>msg_text = Some t, bot_command = None, for_this_bot = False\<rparr>
                   = Some t" for t :: py_str
    by simp
  have configured: "model sample_globals = Some sample_model"
    by (simp add: sample_globals_def)
  have hello: "ascii ''hello'' \<noteq> []" and fail: "ascii ''fail'' \<noteq> []"
    and long: "ascii ''long'' \<noteq> []"
    by (simp_all add: ascii_def)
  have env:
    "transport_delivers sample_globals (SendChatAction (ascii ''typing''))"
    "transport_delivers sample_globals (ReplyText (ascii ''hello'') None)"
    "\<not> transport_delivers sample_globals (ReplyText (replicate 5000 97) None)"
    "sample_model (ascii ''hello'') = Inr (ascii ''hello'')"
    "sample_model (ascii ''fail'') = Inl ProviderError"
    "sample_model (ascii ''long'') = Inr (replicate 5000 97)"
    by (simp_all add: sample_globals_def sample_model_def ascii_def)
  have session:
    "new_message (sample_text t) \<and>
     bot_command \<lparr>msg_text = Some t, bot_command = None, for_this_bot = False\<rparr> = None \<and>
     sample_awaiting (conversation_key (sample_text t)) = Some ASK_AI_QUESTION" for t
    by (simp add: sample_text_new sample_text_key sample_awaiting_def)
  note on_hello = question_answer_or_apology
                    [OF msg content hello configured, of sample_awaiting]
  note on_fail = question_answer_or_apology
                   [OF msg content fail configured, of sample_awaiting]
  note on_long = question_answer_or_apology
                   [OF msg content long configured, of sample_awaiting]
  from on_hello env session [of "ascii ''hello''"]
  have "process_update sample_globals sample_awaiting (sample_text (ascii ''hello'')) =
          (sample_awaiting,
           [SendChatAction (ascii ''typing''), GenerateContent (ascii ''hello''),
            ReplyText (ascii ''hello'') None])"
    by simp
  moreover from on_fail env session [of "ascii ''fail''"]
  have "process_update sample_globals sample_awaiting (sample_text (ascii ''fail'')) =
          (sample_awaiting,
           [SendChatAction (ascii ''typing''), GenerateContent (ascii ''fail''),
            ReplyText text_ai_error None])"
    by simp
  moreover from on_long env session [of "ascii ''long''"]
  have "process_update sample_globals sample_awaiting (sample_text (ascii ''long'')) =
          (sample_awaiting,
           [SendChatAction (ascii ''typing''), GenerateContent (ascii ''long''),
            Refused (ReplyText (replicate 5000 97) None), ReplyText text_ai_error None])"
    and "snd (handle_ai_question sample_globals (sample_text (ascii ''long'')))
           = Returned ASK_AI_QUESTION"
    by simp_all
  ultimately show ?thesis by blast
qed

text \<open>
  C3 as the specification words it: the answer is emitted when the AI call succeeds. The
  sample model answers the question \<open>long\<close> with 5000 letters; the transport refuses
  a text of that length, and the handler sends the apology, not the answer.
\<close>

theorem answer_not_emitted_counterexample:
  "sample_model (ascii ''long'') = Inr (replicate 5000 97) \<and>
   handle_ai_question sample_globals (sample_text (ascii ''long'')) =
     ([SendChatAction (ascii ''typing''), GenerateContent (ascii ''long''),
       Refused (ReplyText (replicate 5000 97) None), ReplyText text_ai_error None],
      Returned ASK_AI_QUESTION)"
  by (simp add: handle_ai_question_def sample_text_def sample_globals_def sample_model_def
        ascii_def)

section \<open>A message without text inside the dialog\<close>

text \<open>
  Called with a message whose text is falsy (\<open>None\<close> or the empty string), the question
  handler sends the request to enter the question as text and nothing else: no AI call is
  made, whatever the model is, and the handler returns \<open>ASK_AI_QUESTION\<close>.
\<close>

lemma empty_question_reprompt:
  assumes "message u = Some m" and "\<not> truthy (msg_text m)"
  shows "handle_ai_question g u =
           ([ReplyText text_enter_question None], Returned ASK_AI_QUESTION) \<and>
         \<not> list_ex is_ai_call (fst (handle_ai_question g u))"
  using assms by (simp add: handle_ai_question_def)

text \<open>
  The filter under which \<open>main\<close> registers the question handler lets only messages
  with a non-empty text through, so the router never passes a falsy text to it.
\<close>

lemma falsy_text_not_routed:
  "message u = Some m \<Longrightarrow> \<not> truthy (msg_text m) \<Longrightarrow>
   select_handler state u \<noteq> Some Handle_ai_question"
  by (auto simp: text_not_command_def command_message_def filter_message_def
        dest: select_question)

text \<open>A new message without text reaches no handler at all, in whatever state.\<close>

lemma falsy_text_dropped:
  assumes "new_message u" and "message u = Some m" and "\<not> truthy (msg_text m)"
  shows "process_update g convs u = (convs, [])"
proof -
  have "\<not> command_update c u" for c
    using assms new_message_filters [OF assms(1,2)] by (simp add: command_update_def)
  moreover have "\<not> text_not_command u"
    using assms new_message_filters [OF assms(1,2)] by (simp add: text_not_command_def)
  ultimately have "select_handler state u = None" for state
    using new_message_no_press [OF assms(1)]
    by (simp add: select_handler_def conversation_check_def split: option.splits)
  then show ?thesis
    by (simp add: process_update_def)
qed

text \<open>
  C8. The specification has a message with a falsy text, received in state
  \<open>AWAITING_AI_QUESTION\<close>, answered by a validation re-prompt. The handler has the
  branch for it (lines 192 to 194), but the registration in \<open>main\<close> keeps every such
  message away from the handler: for the session of user 7 in chat 5, in state
  \<open>AWAITING_AI_QUESTION\<close>, a photo (a message without text) makes no call at all, although
  the handler, called with that same update, would send the re-prompt. The state is
  unchanged.
\<close>

theorem falsy_text_gets_no_reprompt:
  "process_update sample_globals sample_awaiting sample_photo = (sample_awaiting, []) \<and>
   handle_ai_question sample_globals sample_photo =
     ([ReplyText text_enter_question None], Returned ASK_AI_QUESTION)"
proof -
  have "new_message sample_photo"
    by (simp add: new_message_def sample_photo_def)
  moreover have "message sample_photo
                   = Some \<lparr>msg_text = None, bot_command = None, for_this_bot = False\<rparr>"
    by (simp add: sample_photo_def)
  moreover have "\<not> truthy (msg_text \<lparr>msg_text = None, bot_command = None, for_this_bot = False\<rparr>)"
    by simp
  ultimately show ?thesis
    using falsy_text_dropped empty_question_reprompt by blast
qed

section \<open>The second check of the model\<close>

text \<open>
  C10. The question handler checks the model again: a non-empty question that arrives
  while the model handle is absent gets the unavailability message, not the re-prompt
  and not an AI call, and the handler returns the conversation-end value, so that the
  router removes the session's entry (back to \<open>IDLE\<close>).
\<close>

theorem question_rechecks_model:
  assumes "message u = Some m" and "truthy (msg_text m)" and "model g = None"
  shows
    "handle_ai_question g u =
       ([ReplyText text_ai_unavailable None], Returned ConversationHandler_END) \<and>
     (select_handler (convs (conversation_key u)) u = Some Handle_ai_question \<longrightarrow>
        process_update g convs u =
          (convs(conversation_key u := None), [ReplyText text_ai_unavailable None]))"
proof (intro conjI impI)
  show handled: "handle_ai_question g u =
       ([ReplyText text_ai_unavailable None], Returned ConversationHandler_END)"
    using assms by (cases "msg_text m") (simp_all add: handle_ai_question_def)
  assume "select_handler (convs (conversation_key u)) u = Some Handle_ai_question"
  with handled show "process_update g convs u =
          (convs(conversation_key u := None), [ReplyText text_ai_unavailable None])"
    by (simp add: process_update_def update_state_def)
qed

theorem question_rechecks_model_witness:
  "truthy (Some (ascii ''hello'')) \<and> model sample_globals_no_ai = None \<and>
   handle_ai_question sample_globals_no_ai (sample_text (ascii ''hello'')) =
     ([ReplyText text_ai_unavailable None], Returned ConversationHandler_END) \<and>
   process_update sample_globals_no_ai sample_awaiting (sample_text (ascii ''hello'')) =
     (sample_awaiting((5, 7) := None), [ReplyText text_ai_unavailable None])"
proof -
  have msg: "message (sample_text (ascii ''hello''))
               = Some \<lparr>msg_text = Some (ascii ''hello''), bot_command = None,
                       for_this_bot = False\<rparr>"
    by (simp add: sample_text_def)
  have nonempty: "ascii ''hello'' \<noteq> []"
    by (simp add: ascii_def)
  then have asked: "truthy (msg_text \<lparr>msg_text = Some (ascii ''hello''), bot_command = None,
                                      for_this_bot = False\<rparr>)"
    by simp
  have absent: "model sample_globals_no_ai = None"
    by (simp add: sample_globals_no_ai_def)
  from question_rechecks_model [OF msg asked absent, of sample_awaiting]
    select_sample_text_awaiting [OF nonempty] sample_text_key nonempty absent
  show ?thesis by simp
qed

section \<open>The catalog responder\<close>

lemma get_products_failed: "get_products_body d = Inl e \<Longrightarrow> get_products d = []"
  by (simp add: get_products_def)

lemma show_products_empty:
  "callback_query u = Some query \<Longrightarrow> get_products (bot_database g) = [] \<Longrightarrow>
   show_products_callback g u =
     ([AnswerCallbackQuery, EditMessageText text_no_products None,
       ReplyText text_choose_next (Some main_keyboard)],
      Returned ())"
  by (simp add: show_products_callback_def)

text \<open>
  C7. \<open>get_products\<close> never passes a failure of the store to its caller: whenever the
  read raises (the store cannot be opened, or the table is missing) it returns the empty
  list, as it does for a readable table without rows. The catalog responder cannot tell
  these apart: on an empty result it acknowledges the press, replaces the message by the
  no-products text and sends the menu, whatever made the result empty.
\<close>

theorem listing_failure_is_empty:
  assumes "callback_query u = Some query"
  shows
    "(\<forall>e. get_products_body d = Inl e \<longrightarrow> get_products d = []) \<and>
     (\<not> available d \<longrightarrow> get_products d = []) \<and>
     (products d = None \<longrightarrow> get_products d = []) \<and>
     (available d \<and> products d = Some [] \<longrightarrow> get_products d = []) \<and>
     (get_products (bot_database g) = [] \<longrightarrow>
        show_products_callback g u =
          ([AnswerCallbackQuery, EditMessageText text_no_products None,
            ReplyText text_choose_next (Some main_keyboard)],
           Returned ()))"
proof (intro conjI allI impI)
  fix e assume "get_products_body d = Inl e"
  then show "get_products d = []" by (rule get_products_failed)
next
  assume "\<not> available d"
  then show "get_products d = []"
    by (simp add: get_products_def get_products_body_def)
next
  assume "products d = None"
  then show "get_products d = []"
    by (simp add: get_products_def get_products_body_def)
next
  assume "available d \<and> products d = Some []"
  then show "get_products d = []"
    by (simp add: get_products_def get_products_body_def)
next
  assume "get_products (bot_database g) = []"
  with assms show "show_products_callback g u =
          ([AnswerCallbackQuery, EditMessageText text_no_products None,
            ReplyText text_choose_next (Some main_keyboard)],
           Returned ())"
    by (rule show_products_empty)
qed

theorem listing_failure_is_empty_witness:
  "\<not> available sample_store_unreadable \<and>
   get_products sample_store_unreadable = [] \<and>
   get_products sample_store_bare = [] \<and>
   show_products_callback (sample_globals\<lparr>bot_database := sample_store_unreadable\<rparr>)
     (sample_press (ascii ''show_products''))
   = ([AnswerCallbackQuery, EditMessageText text_no_products None,
       ReplyText text_choose_next (Some main_keyboard)],
      Returned ()) \<and>
   show_products_callback (sample_globals\<lparr>bot_database := sample_store_bare\<rparr>)
     (sample_press (ascii ''show_products''))
   = ([AnswerCallbackQuery, EditMessageText text_no_products None,
       ReplyText text_choose_next (Some main_keyboard)],
      Returned ())"
proof -
  have pressed: "callback_query (sample_press (ascii ''show_products''))
                   = Some \<lparr>cb_data = Some (ascii ''show_products'')\<rparr>"
    by (simp add: sample_press_def)
  have unreadable: "\<not> available sample_store_unreadable"
    by (simp add: sample_store_unreadable_def)
  have bare: "available sample_store_bare \<and> products sample_store_bare = Some []"
    by (simp add: sample_store_bare_def)
  note on_unreadable = listing_failure_is_empty
      [OF pressed, of sample_store_unreadable
          "sample_globals\<lparr>bot_database := sample_store_unreadable\<rparr>"]
  note on_bare = listing_failure_is_empty
      [OF pressed, of sample_store_bare "sample_globals\<lparr>bot_database := sample_store_bare\<rparr>"]
  from on_unreadable unreadable have first: "get_products sample_store_unreadable = []"
    by blast
  from on_bare bare have second: "get_products sample_store_bare = []"
    by blast
  from on_unreadable first on_bare second unreadable show ?thesis
    by simp
qed

section \<open>Ending the dialog\<close>

lemma done_dialog_calls:
  "message u = Some m \<Longrightarrow>
   done_ai_dialog g u =
     ([ReplyText text_dialog_done (Some main_keyboard)], Returned ConversationHandler_END)"
  by (simp add: done_ai_dialog_def)

text \<open>
  The handler that the router picks for a new message that is the command \<open>done\<close>:
  the done handler inside a conversation, and not the done handler outside one.
\<close>

lemma select_done_command:
  assumes "new_message u" and "message u = Some m" and "truthy (msg_text m)"
    and "bot_command m = Some (ascii ''done'')" and "for_this_bot m"
  shows "select_handler (Some s) u = Some Done_ai_dialog"
    and "select_handler None u = None"
proof -
  note seen = new_message_filters [OF assms(1,2)]
  have is_done: "command_update (ascii ''done'') u"
    using assms seen by (simp add: command_update_def)
  have "\<not> command_update (ascii ''start'') u" "\<not> command_update (ascii ''help'') u"
    using assms seen by (simp_all add: command_update_def ascii_def)
  moreover have "\<not> text_not_command u"
    using assms seen by (simp add: text_not_command_def)
  moreover have "channel_post u = None" "edited_channel_post u = None"
    using assms(1) by (simp_all add: new_message_def)
  ultimately show "select_handler (Some s) u = Some Done_ai_dialog"
    and "select_handler None u = None"
    using is_done new_message_no_press [OF assms(1)]
    by (simp_all add: select_handler_def conversation_check_def)
qed

text \<open>
  C4, as the code has it. The handler \<open>done_ai_dialog\<close> always sends the closing message
  and returns the conversation-end value, but the router reaches it only inside a
  conversation. For a session with an active conversation the command \<open>done\<close> sends
  the closing message and returns the session to \<open>IDLE\<close>. For a session already in
  \<open>IDLE\<close> the command does not reach the done handler: the state stays \<open>IDLE\<close> and no
  closing message is sent. In both cases the session is in \<open>IDLE\<close> afterwards, and a
  second \<open>done\<close> changes the state no more.
\<close>

theorem done_ends_in_idle:
  assumes "new_message u" and "message u = Some m" and "truthy (msg_text m)"
    and "bot_command m = Some (ascii ''done'')" and "for_this_bot m"
  shows
    "done_ai_dialog g u =
       ([ReplyText text_dialog_done (Some main_keyboard)], Returned ConversationHandler_END) \<and>
     (\<forall>s. convs (conversation_key u) = Some s \<longrightarrow>
        process_update g convs u =
          (convs(conversation_key u := None),
           [ReplyText text_dialog_done (Some main_keyboard)])) \<and>
     (convs (conversation_key u) = None \<longrightarrow>
        select_handler (convs (conversation_key u)) u \<noteq> Some Done_ai_dialog \<and>
        fst (process_update g convs u) = convs \<and>
        ReplyText text_dialog_done (Some main_keyboard)
          \<notin> set (snd (process_update g convs u))) \<and>
     fst (process_update g convs u) (conversation_key u) = None \<and>
     fst (process_update g (fst (process_update g convs u)) u) = fst (process_update g convs u)"
proof -
  note selected = select_done_command [OF assms]
  have handler: "done_ai_dialog g u =
       ([ReplyText text_dialog_done (Some main_keyboard)], Returned ConversationHandler_END)"
    using assms(2) by (rule done_dialog_calls)
  have idle: "process_update g c u = (c, [])" if "c (conversation_key u) = None" for c
    using that selected(2) by (simp add: process_update_def)
  have active: "process_update g c u =
          (c(conversation_key u := None), [ReplyText text_dialog_done (Some main_keyboard)])"
    if "c (conversation_key u) = Some s" for c s
    using that selected(1) handler
    by (simp add: process_update_def update_state_def)
  have after: "fst (process_update g c u) (conversation_key u) = None" for c
    by (cases "c (conversation_key u)") (simp_all add: idle active)
  have twice:
    "fst (process_update g (fst (process_update g convs u)) u) = fst (process_update g convs u)"
    using idle [of "fst (process_update g convs u)"] after [of convs] by simp
  have outside: "select_handler (convs (conversation_key u)) u \<noteq> Some Done_ai_dialog \<and>
        fst (process_update g convs u) = convs \<and>
        ReplyText text_dialog_done (Some main_keyboard)
          \<notin> set (snd (process_update g convs u))"
    if "convs (conversation_key u) = None"
    using that selected(2) idle [of convs] by simp
  from handler active outside after twice show ?thesis
    by blast
qed

lemma sample_command_new: "new_message (sample_command c)"
  by (simp add: new_message_def sample_command_def)

lemma sample_command_key: "conversation_key (sample_command c) = (5, 7)"
  by (simp add: conversation_key_def sample_command_def)

theorem done_ends_in_idle_witness:
  "fst (process_update sample_globals sample_idle (sample_command (ascii ''done'')))
     = sample_idle \<and>
   ReplyText text_dialog_done (Some main_keyboard)
     \<notin> set (snd (process_update sample_globals sample_idle (sample_command (ascii ''done'')))) \<and>
   process_update sample_globals sample_awaiting (sample_command (ascii ''done''))
     = (sample_awaiting((5, 7) := None), [ReplyText text_dialog_done (Some main_keyboard)]) \<and>
   fst (process_update sample_globals sample_awaiting (sample_command (ascii ''done''))) (5, 7)
     = None"
proof -
  have msg: "message (sample_command (ascii ''done''))
               = Some \<lparr>msg_text = Some (47 # ascii ''done''),
                       bot_command = Some (ascii ''done''), for_this_bot = True\<rparr>"
    by (simp add: sample_command_def)
  have asked: "truthy (msg_text \<lparr>msg_text = Some (47 # ascii ''done''),
                                   bot_command = Some (ascii ''done''), for_this_bot = True\<rparr>)"
    by simp
  have is_done: "bot_command \<lparr>msg_text = Some (47 # ascii ''done''),
                               bot_command = Some (ascii ''done''), for_this_bot = True\<rparr>
                   = Some (ascii ''done'')"
    by simp
  have mine: "for_this_bot \<lparr>msg_text = Some (47 # ascii ''done''),
                             bot_command = Some (ascii ''done''), for_this_bot = True\<rparr>"
    by simp
  have idle: "sample_idle (conversation_key (sample_command (ascii ''done''))) = None"
    by (simp add: sample_idle_def)
  have awaiting: "sample_awaiting (conversation_key (sample_command (ascii ''done'')))
                    = Some ASK_AI_QUESTION"
    by (simp add: sample_awaiting_def sample_command_key)
  note on_idle = done_ends_in_idle
                   [OF sample_command_new msg asked is_done mine, of sample_globals sample_idle]
  note on_awaiting = done_ends_in_idle
                       [OF sample_command_new msg asked is_done mine,
                        of sample_globals sample_awaiting]
  from on_idle idle
  have "fst (process_update sample_globals sample_idle (sample_command (ascii ''done'')))
          = sample_idle"
    and "ReplyText text_dialog_done (Some main_keyboard)
           \<notin> set (snd (process_update sample_globals sample_idle
                         (sample_command (ascii ''done''))))"
    by blast+
  moreover from on_awaiting awaiting
  have "process_update sample_globals sample_awaiting (sample_command (ascii ''done''))
          = (sample_awaiting((5, 7) := None),
             [ReplyText text_dialog_done (Some main_keyboard)])"
    and "fst (process_update sample_globals sample_awaiting
               (sample_command (ascii ''done''))) (5, 7) = None"
    by (simp_all add: sample_command_key)
  ultimately show ?thesis by blast
qed

text \<open>
  C4 as the specification words it: \<open>done\<close> in state \<open>IDLE\<close> produces a
  closing-style response and not silence. At the start of the bot, with the model
  configured, the command \<open>/done\<close> of a user without a conversation produces no call at
  all.
\<close>

theorem done_while_idle_counterexample:
  "process_update sample_globals sample_idle (sample_command (ascii ''done''))
     = (sample_idle, []) \<and>
   count_messages
     (snd (process_update sample_globals sample_idle (sample_command (ascii ''done'')))) = 0"
proof -
  have "select_handler None (sample_command (ascii ''done'')) = None"
    by (simp add: select_handler_def conversation_check_def filter_defs
          sample_command_def ascii_def)
  then have "process_update sample_globals sample_idle (sample_command (ascii ''done''))
               = (sample_idle, [])"
    by (simp add: process_update_def sample_idle_def)
  then show ?thesis
    by (simp add: count_messages_def)
qed

section \<open>Responses of the router\<close>




















end
